theory Spec2Isabelle
  imports Main "HOL-Library.Word" "HOL-Library.Sublist"
begin

section \<open>Strings and errors of the Go program\<close>

text \<open>
  A Go string is a sequence of bytes; it is modelled as \<open>string\<close> (a list of 8-bit
  characters). A Go \<open>error\<close> value is either created by \<open>errors.New\<close>, or wraps another
  error behind a message prefix (\<open>fmt.Errorf("...: %w", err)\<close>), or is produced by a
  collaborator outside the two source files (dialer, connection, handshake driver).
  For the latter the model records the cause the status classifier can observe.
\<close>

datatype err_cause = CauseTimeout | CauseConnection | CauseHandshake | CauseOther

datatype error =
    ErrorNew string
  | ErrorWrap string error
  | ErrorExt err_cause string

text \<open>The \<open>Error()\<close> method: the message of an error.\<close>

fun Error :: "error \<Rightarrow> string" where
  "Error (ErrorNew m) = m"
| "Error (ErrorWrap p e) = p @ Error e"
| "Error (ErrorExt c m) = m"

text \<open>The cause at the bottom of a chain of wrapped errors.\<close>

fun cause_of :: "error \<Rightarrow> err_cause" where
  "cause_of (ErrorNew m) = CauseOther"
| "cause_of (ErrorWrap p e) = cause_of e"
| "cause_of (ErrorExt c m) = c"

text \<open>
  \<open>strings.Split(s, ",")\<close> for the one-byte separator: the substrings between the
  separators, in order. The empty string gives one empty substring, never an empty list.
\<close>

fun Split :: "string \<Rightarrow> char \<Rightarrow> string list" where
  "Split [] sep = [[]]"
| "Split (c # cs) sep =
     (if c = sep then [] # Split cs sep
      else (case Split cs sep of
              [] \<Rightarrow> [[c]]
            | t # ts \<Rightarrow> (c # t) # ts))"

text \<open>\<open>strings.Contains(s, substr)\<close>: \<open>substr\<close> occurs in \<open>s\<close> as a contiguous run.\<close>

fun Contains :: "string \<Rightarrow> string \<Rightarrow> bool" where
  "Contains [] substr = (substr = [])"
| "Contains (c # cs) substr = (prefix substr (c # cs) \<or> Contains cs substr)"

section \<open>Algorithm preferences (package ssh)\<close>

text \<open>
  Modelled from the spec: the helper \<open>contains\<close> of package ssh is not among the source
  files. The validator "membership-tests [each token] against supported", the identifier
  having to "appear verbatim in the corresponding set".
\<close>

definition contains :: "string list \<Rightarrow> string \<Rightarrow> bool" where
  "contains list e = List.member list e"

text \<open>
  The four process-wide lists \<open>supportedKexAlgos\<close>, \<open>supportedHostKeyAlgos\<close>,
  \<open>supportedCiphers\<close> and \<open>supportedMACs\<close> are declared outside the source files; the
  functions that read them take them as a parameter.
\<close>

record Catalog =
  supportedKexAlgos :: "string list"
  supportedHostKeyAlgos :: "string list"
  supportedCiphers :: "string list"
  supportedMACs :: "string list"

text \<open>
  A Go slice of strings that may be \<open>nil\<close>: \<open>None\<close> is the nil slice. \<open>append\<close> to the
  nil slice allocates.
\<close>

type_synonym slice = "string list option"

fun append_slice :: "slice \<Rightarrow> string \<Rightarrow> slice" where
  "append_slice None x = Some [x]"
| "append_slice (Some xs) x = Some (xs @ [x])"

text \<open>
  \<open>validateAlgorithms\<close>: the loop over the tokens, with the slice \<open>algs\<close> built so far.
  The first token that is not supported returns \<open>(nil, error)\<close> at once.
\<close>

definition not_supported :: "string \<Rightarrow> error" where
  "not_supported alg = ErrorNew (''algorithm not supported: '' @ [CHR 0x22] @ alg @ [CHR 0x22])"

fun validateLoop :: "string list \<Rightarrow> string list \<Rightarrow> slice \<Rightarrow> slice \<times> error option" where
  "validateLoop [] supported algs = (algs, None)"
| "validateLoop (alg # rest) supported algs =
     (let isValid = contains supported alg
      in if \<not> isValid then (None, Some (not_supported alg))
         else validateLoop rest supported (append_slice algs alg))"

definition validateAlgorithms :: "string \<Rightarrow> string list \<Rightarrow> slice \<times> error option" where
  "validateAlgorithms value supported = validateLoop (Split value CHR '','') supported None"

text \<open>
  \<open>strings.TrimSpace\<close> removes the leading and the trailing white space, as defined by
  Unicode, rune by rune. On bytes: the encodings below are the UTF-8 forms of the white
  space runes (tab, line feed, vertical tab, form feed, carriage return, space, U+0085,
  U+00A0, U+1680, U+2000 to U+200A, U+2028, U+2029, U+202F, U+205F, U+3000). Each starts
  with a byte that is no continuation byte, so a string begins (ends) with a white space
  rune exactly when one of the encodings is a prefix (suffix) of it.
\<close>

definition spaceEncodings :: "string list" where
  "spaceEncodings =
     [[CHR 0x09], [CHR 0x0A], [CHR 0x0B], [CHR 0x0C], [CHR 0x0D], [CHR 0x20],
      [CHR 0xC2, CHR 0x85], [CHR 0xC2, CHR 0xA0],
      [CHR 0xE1, CHR 0x9A, CHR 0x80],
      [CHR 0xE2, CHR 0x80, CHR 0x80], [CHR 0xE2, CHR 0x80, CHR 0x81],
      [CHR 0xE2, CHR 0x80, CHR 0x82], [CHR 0xE2, CHR 0x80, CHR 0x83],
      [CHR 0xE2, CHR 0x80, CHR 0x84], [CHR 0xE2, CHR 0x80, CHR 0x85],
      [CHR 0xE2, CHR 0x80, CHR 0x86], [CHR 0xE2, CHR 0x80, CHR 0x87],
      [CHR 0xE2, CHR 0x80, CHR 0x88], [CHR 0xE2, CHR 0x80, CHR 0x89],
      [CHR 0xE2, CHR 0x80, CHR 0x8A],
      [CHR 0xE2, CHR 0x80, CHR 0xA8], [CHR 0xE2, CHR 0x80, CHR 0xA9],
      [CHR 0xE2, CHR 0x80, CHR 0xAF], [CHR 0xE2, CHR 0x81, CHR 0x9F],
      [CHR 0xE3, CHR 0x80, CHR 0x80]]"

text \<open>The length of the white space rune that \<open>s\<close> starts with; 0 when there is none.\<close>

definition spaceLen :: "string list \<Rightarrow> string \<Rightarrow> nat" where
  "spaceLen ws s = (case List.find (\<lambda>w. w \<noteq> [] \<and> prefix w s) ws of None \<Rightarrow> 0 | Some w \<Rightarrow> length w)"

function trimLeading :: "string list \<Rightarrow> string \<Rightarrow> string" where
  "trimLeading ws s = (let n = spaceLen ws s in if n = 0 then s else trimLeading ws (drop n s))"
  by pat_completeness auto
termination
proof (relation "measure (\<lambda>(ws, s). length s)")
  show "wf (measure (\<lambda>(ws, s). length s))" by simp
next
  fix ws :: "string list" and s :: string and x :: nat
  assume x: "x = spaceLen ws s" and nz: "x \<noteq> 0"
  from x nz obtain w where "List.find (\<lambda>w. w \<noteq> [] \<and> prefix w s) ws = Some w"
    by (auto simp: spaceLen_def split: option.splits)
  then have "w \<noteq> []" and "prefix w s"
    by (auto simp: find_Some_iff)
  then have "s \<noteq> []" by auto
  with nz show "((ws, drop x s), (ws, s)) \<in> measure (\<lambda>(ws, s). length s)"
    by simp
qed

declare trimLeading.simps [simp del]

definition TrimSpace :: "string \<Rightarrow> string" where
  "TrimSpace s = rev (trimLeading (map rev spaceEncodings) (rev (trimLeading spaceEncodings s)))"

section \<open>The handshake log and the client configuration (package ssh)\<close>

text \<open>
  Modelled from the spec: the type \<open>HandshakeLog\<close> is declared outside the source files,
  which only assign its field \<open>Banner\<close>. The spec lists "banner string (trimmed),
  negotiated algorithm choices per category, host key material observed, list of
  advertised protocol extensions (if collected), list of advertised authentication method
  names (if collected)"; a field that was never set is \<open>None\<close> (the banner: empty).
\<close>

record Negotiated =
  kexAlgorithm :: string
  hostKeyAlgorithm :: string
  cipher :: string
  mac :: string

record HandshakeLog =
  Banner :: string
  Algorithms :: "Negotiated option"
  HostKey :: "string option"
  Extensions :: "string list option"
  UserAuth :: "string list option"

text \<open>\<open>new(ssh.HandshakeLog)\<close>: every field has its zero value.\<close>

definition new_HandshakeLog :: HandshakeLog where
  "new_HandshakeLog =
     \<lparr>Banner = [], Algorithms = None, HostKey = None, Extensions = None, UserAuth = None\<rparr>"

text \<open>
  The command-line flags. \<open>zgrab2.BaseFlags\<close> is embedded in \<open>SSHFlags\<close>; of its fields
  the source reads \<open>Name\<close>, \<open>Trigger\<close>, \<open>ConnectTimeout\<close> (a \<open>time.Duration\<close>, 64 bits) and
  \<open>Verbose\<close>. A Go \<open>uint\<close> is taken to be 64 bits wide.
\<close>

record BaseFlags =
  Name :: string
  Trigger :: string
  ConnectTimeout :: "64 word"
  Verbose :: bool

record SSHFlags = BaseFlags +
  ClientID :: string
  KexAlgorithms :: string
  HostKeyAlgorithms :: string
  Ciphers :: string
  MACs :: string
  CollectExtensions :: bool
  CollectUserAuth :: bool
  GexMinBits :: "64 word"
  GexMaxBits :: "64 word"
  GexPreferredBits :: "64 word"
  HelloOnly :: bool

text \<open>
  \<open>ssh.ClientConfig\<close>, with the fields the source files assign. \<open>ConnLog\<close> points to the
  one log that \<open>Scan\<close> allocates; the banner callback is a closure over that log, so it
  takes the log and returns it updated. The fields that share a name with a flag are
  written \<open>ClientConfig.HelloOnly\<close> and so on where both records are in scope.
\<close>

datatype log_ptr = DataPtr

datatype host_key_callback = InsecureIgnoreHostKey

record ClientConfig =
  Timeout :: "64 word"
  ConnLog :: "log_ptr option"
  ClientVersion :: string
  HelloOnly :: bool
  KeyExchanges :: slice
  HostKeyAlgorithms :: slice
  Ciphers :: slice
  MACs :: slice
  Verbose :: bool
  CollectExtensions :: bool
  CollectUserAuth :: bool
  DontAuthenticate :: bool
  GexMinBits :: "64 word"
  GexMaxBits :: "64 word"
  GexPreferredBits :: "64 word"
  BannerCallback :: "(string \<Rightarrow> HandshakeLog \<Rightarrow> HandshakeLog \<times> error option) option"
  HostKeyCallback :: "host_key_callback option"

text \<open>\<open>new(ssh.ClientConfig)\<close>: every field has its zero value.\<close>

definition new_ClientConfig :: ClientConfig where
  "new_ClientConfig =
     \<lparr>Timeout = 0, ConnLog = None, ClientVersion = [], HelloOnly = False,
      KeyExchanges = None, HostKeyAlgorithms = None, Ciphers = None, MACs = None,
      Verbose = False, CollectExtensions = False, CollectUserAuth = False,
      DontAuthenticate = False, GexMinBits = 0, GexMaxBits = 0, GexPreferredBits = 0,
      BannerCallback = None, HostKeyCallback = None\<rparr>"

definition MakeSSHConfig :: "Catalog \<Rightarrow> ClientConfig" where
  "MakeSSHConfig cat =
     (let ret = new_ClientConfig;
          ret = ret\<lparr>KeyExchanges := Some (supportedKexAlgos cat)\<rparr>;
          ret = ret\<lparr>HostKeyAlgorithms := Some (supportedHostKeyAlgos cat)\<rparr>;
          ret = ret\<lparr>Ciphers := Some (supportedCiphers cat)\<rparr>;
          ret = ret\<lparr>MACs := Some (supportedMACs cat)\<rparr>
      in ret)"

text \<open>
  The four setters. Each mutates the receiver \<open>c\<close>; the model returns the receiver after
  the call together with the returned error.
\<close>

definition SetKexAlgorithms :: "Catalog \<Rightarrow> string \<Rightarrow> ClientConfig \<Rightarrow> ClientConfig \<times> error option" where
  "SetKexAlgorithms cat value c =
     (case validateAlgorithms value (supportedKexAlgos cat) of
        (algs, Some err) \<Rightarrow> (c, Some err)
      | (algs, None) \<Rightarrow> (c\<lparr>KeyExchanges := algs\<rparr>, None))"

definition SetHostKeyAlgorithms :: "Catalog \<Rightarrow> string \<Rightarrow> ClientConfig \<Rightarrow> ClientConfig \<times> error option" where
  "SetHostKeyAlgorithms cat value c =
     (case validateAlgorithms value (supportedHostKeyAlgos cat) of
        (algs, Some err) \<Rightarrow> (c, Some err)
      | (algs, None) \<Rightarrow> (c\<lparr>HostKeyAlgorithms := algs\<rparr>, None))"

definition SetCiphers :: "Catalog \<Rightarrow> string \<Rightarrow> ClientConfig \<Rightarrow> ClientConfig \<times> error option" where
  "SetCiphers cat value c =
     (case validateAlgorithms value (supportedCiphers cat) of
        (algs, Some err) \<Rightarrow> (c, Some err)
      | (algs, None) \<Rightarrow> (c\<lparr>Ciphers := algs\<rparr>, None))"

definition SetMACs :: "Catalog \<Rightarrow> string \<Rightarrow> ClientConfig \<Rightarrow> ClientConfig \<times> error option" where
  "SetMACs cat value c =
     (case validateAlgorithms value (supportedMACs cat) of
        (algs, Some err) \<Rightarrow> (c, Some err)
      | (algs, None) \<Rightarrow> (c\<lparr>MACs := algs\<rparr>, None))"

section \<open>The scan statuses and the status classifier (package zgrab2)\<close>

text \<open>
  Modelled from the spec: the type \<open>ScanStatus\<close> is declared outside the source files,
  which name \<open>SCAN_HANDSHAKE_ERROR\<close> only. The spec's taxonomy is "success,
  connection-error, handshake-error, timeout, unknown-error".
\<close>

datatype ScanStatus =
    SCAN_SUCCESS
  | SCAN_CONNECTION_ERROR
  | SCAN_HANDSHAKE_ERROR
  | SCAN_TIMEOUT
  | SCAN_UNKNOWN_ERROR

text \<open>
  Modelled from the spec: \<open>zgrab2.TryGetScanStatus\<close> is not among the source files. The
  spec: "no error \<rightarrow> success; error during connection establishment \<rightarrow> connection-error;
  error surfaced specifically during the handshake phases \<rightarrow> handshake-error; error due to
  the timeout boundary expiring \<rightarrow> timeout; any other/uncategorized error \<rightarrow> generic scan
  error". \<open>Scan\<close> classifies a dial error after wrapping it and the spec gives a dial
  timeout the timeout status, so the classifier looks at the cause below the wrapping.
\<close>

fun TryGetScanStatus :: "error option \<Rightarrow> ScanStatus" where
  "TryGetScanStatus None = SCAN_SUCCESS"
| "TryGetScanStatus (Some err) =
     (case cause_of err of
        CauseTimeout \<Rightarrow> SCAN_TIMEOUT
      | CauseConnection \<Rightarrow> SCAN_CONNECTION_ERROR
      | CauseHandshake \<Rightarrow> SCAN_HANDSHAKE_ERROR
      | CauseOther \<Rightarrow> SCAN_UNKNOWN_ERROR)"

section \<open>The scanner (package modules)\<close>

text \<open>
  The scan target. \<open>Host()\<close> and \<open>String()\<close> are methods of \<open>zgrab2.ScanTarget\<close>, declared
  outside the source files; their results are taken as fields.
\<close>

record ScanTarget =
  Host :: string
  Port :: "64 word"
  TargetString :: string

text \<open>\<open>strconv.Itoa\<close>: the decimal form of an integer.\<close>

fun digitsOf :: "nat \<Rightarrow> string" where
  "digitsOf n =
     (if n < 10 then [char_of (48 + n)] else digitsOf (n div 10) @ [char_of (48 + n mod 10)])"

declare digitsOf.simps [simp del]

definition Itoa :: "int \<Rightarrow> string" where
  "Itoa i = (if i < 0 then CHR ''-'' # digitsOf (nat (- i)) else digitsOf (nat i))"

text \<open>\<open>net.JoinHostPort\<close>: a host that contains a colon is put in brackets.\<close>

definition JoinHostPort :: "string \<Rightarrow> string \<Rightarrow> string" where
  "JoinHostPort host port =
     (if CHR '':'' \<in> set host then ''['' @ host @ '']:'' @ port else host @ '':'' @ port)"

text \<open>
  The collaborators of one invocation of \<open>Scan\<close>, none of them in the source files:
  the outcome of \<open>dialGroup.Dial\<close> (\<open>None\<close>: a connection), the outcome of
  \<open>conn.SetDeadline\<close>, the handshake driver \<open>ssh.NewClientConn\<close> (it receives the remote
  address and the configuration, writes into the log and returns an error or a
  connection), and the outcome of \<open>sshClient.Close\<close>.
\<close>

record Env =
  env_Dial :: "error option"
  env_SetDeadline :: "error option"
  env_NewClientConn :: "string \<Rightarrow> ClientConfig \<Rightarrow> HandshakeLog \<Rightarrow> HandshakeLog \<times> error option"
  env_Close :: "error option"

text \<open>
  What an invocation does to the outside, in order. \<open>EvFatal\<close> is \<open>log.Fatal\<close>: the error
  is logged and the process exits. \<open>EvNewClientConn\<close> carries the remote address, the
  configuration handed to the driver and the log as the driver left it.
\<close>

datatype event =
    EvFatal error
  | EvDial ScanTarget
  | EvSetDeadline "64 word"
  | EvNewClientConn string ClientConfig HandshakeLog
  | EvClose
  | EvErrorf string

text \<open>
  How an invocation ends: the process exits in \<open>log.Fatal\<close>, or \<open>Scan\<close> returns its three
  results (the status, the log or \<open>nil\<close>, the error or \<open>nil\<close>).
\<close>

datatype outcome =
    Exit error
  | Return ScanStatus "HandshakeLog option" "error option"

text \<open>
  The banner callback that \<open>Scan\<close> installs (lines 120 to 123): a closure over \<open>data\<close>.
\<close>

definition bannerCallback :: "string \<Rightarrow> HandshakeLog \<Rightarrow> HandshakeLog \<times> error option" where
  "bannerCallback banner data = (data\<lparr>Banner := TrimSpace banner\<rparr>, None)"

text \<open>
  Lines 96 to 124 of \<open>Scan\<close>: the configuration is assembled from the flags. \<open>Inl err\<close> is
  the call \<open>log.Fatal(err)\<close> after a setter returned \<open>err\<close>.
\<close>

definition Scan_config :: "Catalog \<Rightarrow> SSHFlags \<Rightarrow> error + ClientConfig" where
  "Scan_config cat config =
     (let sshConfig = new_ClientConfig;
          sshConfig = sshConfig\<lparr>Timeout := ConnectTimeout config\<rparr>;
          sshConfig = sshConfig\<lparr>ConnLog := Some DataPtr\<rparr>;
          sshConfig = sshConfig\<lparr>ClientVersion := ClientID config\<rparr>;
          sshConfig = sshConfig\<lparr>HelloOnly := SSHFlags.HelloOnly config\<rparr>
      in case SetHostKeyAlgorithms cat (SSHFlags.HostKeyAlgorithms config) sshConfig of
           (sshConfig, Some err) \<Rightarrow> Inl err
         | (sshConfig, None) \<Rightarrow>
      (case SetKexAlgorithms cat (KexAlgorithms config) sshConfig of
           (sshConfig, Some err) \<Rightarrow> Inl err
         | (sshConfig, None) \<Rightarrow>
      (case SetCiphers cat (SSHFlags.Ciphers config) sshConfig of
           (sshConfig, Some err) \<Rightarrow> Inl err
         | (sshConfig, None) \<Rightarrow>
      (case SetMACs cat (SSHFlags.MACs config) sshConfig of
           (sshConfig, Some err) \<Rightarrow> Inl err
         | (sshConfig, None) \<Rightarrow>
      (let sshConfig = sshConfig\<lparr>Verbose := BaseFlags.Verbose config\<rparr>;
           sshConfig = sshConfig\<lparr>CollectExtensions := SSHFlags.CollectExtensions config\<rparr>;
           sshConfig = sshConfig\<lparr>CollectUserAuth := SSHFlags.CollectUserAuth config\<rparr>;
           sshConfig = sshConfig\<lparr>DontAuthenticate := True\<rparr>;
           sshConfig = sshConfig\<lparr>GexMinBits := SSHFlags.GexMinBits config\<rparr>;
           sshConfig = sshConfig\<lparr>GexMaxBits := SSHFlags.GexMaxBits config\<rparr>;
           sshConfig = sshConfig\<lparr>GexPreferredBits := SSHFlags.GexPreferredBits config\<rparr>;
           sshConfig = sshConfig\<lparr>BannerCallback := Some bannerCallback\<rparr>;
           sshConfig = sshConfig\<lparr>HostKeyCallback := Some InsecureIgnoreHostKey\<rparr>
       in Inr sshConfig)))))"

text \<open>
  The deferred closure of \<open>Scan\<close> (lines 142 to 147): what it logs for a given result of
  \<open>sshClient.Close\<close>. It assigns the local variable \<open>err\<close> after the results of \<open>Scan\<close>
  (which are unnamed) have been evaluated, so it cannot change them.
\<close>

definition Scan_deferred :: "ScanTarget \<Rightarrow> error option \<Rightarrow> event list" where
  "Scan_deferred target cerr =
     (case cerr of
        None \<Rightarrow> []
      | Some err \<Rightarrow>
          (if \<not> Contains (Error err) ''use of closed network connection''
           then [EvErrorf (''error closing SSH client for target '' @ TargetString target
                           @ '': '' @ Error err)]
           else []))"

text \<open>\<open>Scan\<close>: the outcome of the invocation and what it did to the outside.\<close>

definition Scan :: "Catalog \<Rightarrow> SSHFlags \<Rightarrow> Env \<Rightarrow> ScanTarget \<Rightarrow> outcome \<times> event list" where
  "Scan cat config env target =
     (let data = new_HandshakeLog;
          portStr = Itoa (sint (Port target));
          rhost = JoinHostPort (Host target) portStr
      in case Scan_config cat config of
           Inl err \<Rightarrow> (Exit err, [EvFatal err])
         | Inr sshConfig \<Rightarrow>
      (case env_Dial env of
           Some err \<Rightarrow>
             (let err = ErrorWrap (''failed to dial target '' @ TargetString target @ '': '') err
              in (Return (TryGetScanStatus (Some err)) None (Some err), [EvDial target]))
         | None \<Rightarrow>
      (let (err, evs) =
             (if ConnectTimeout config \<noteq> 0
              then (env_SetDeadline env, [EvDial target, EvSetDeadline (ConnectTimeout config)])
              else (None, [EvDial target]))
       in case err of
            Some err \<Rightarrow>
              (Return (TryGetScanStatus (Some err)) None
                 (Some (ErrorWrap ''failed to set connection deadline: '' err)), evs)
          | None \<Rightarrow>
      (case env_NewClientConn env rhost sshConfig data of
           (data, Some err) \<Rightarrow>
             (Return SCAN_HANDSHAKE_ERROR None
                (Some (ErrorWrap ''failed to create SSH client connection: '' err)),
              evs @ [EvNewClientConn rhost sshConfig data])
         | (data, None) \<Rightarrow>
             (let status = TryGetScanStatus None
              in (Return status (Some data) None,
                  evs @ [EvNewClientConn rhost sshConfig data, EvClose]
                      @ Scan_deferred target (env_Close env)))))))"

text \<open>
  Modelled from the spec: the handshake driver \<open>ssh.NewClientConn\<close> is not among the
  source files. The spec: the states are "VersionExchange \<rightarrow> KeyExchange \<rightarrow> (optional)
  ExtensionNegotiation \<rightarrow> (optional) UserAuthProbe \<rightarrow> Done"; version exchange "on receipt,
  invokes a caller-supplied banner callback"; "HelloOnly policy truncates the machine
  immediately after VersionExchange"; a failure "at any phase aborts the state machine at
  that phase; the Log retains everything captured in completed phases". The remote server
  is given by what it does in each phase.
\<close>

record Server =
  srv_banner :: "error + string"
  srv_keyExchange :: "error + Negotiated \<times> string"
  srv_extensions :: "error + string list"
  srv_authMethods :: "error + string list"

definition NewClientConn :: "Server \<Rightarrow> string \<Rightarrow> ClientConfig \<Rightarrow> HandshakeLog \<Rightarrow> HandshakeLog \<times> error option" where
  "NewClientConn srv rhost cfg data =
     (case srv_banner srv of
        Inl err \<Rightarrow> (data, Some err)
      | Inr banner \<Rightarrow>
     (case (case BannerCallback cfg of None \<Rightarrow> (data, None) | Some cb \<Rightarrow> cb banner data) of
        (data, Some err) \<Rightarrow> (data, Some err)
      | (data, None) \<Rightarrow>
     (if ClientConfig.HelloOnly cfg then (data, None)
      else case srv_keyExchange srv of
        Inl err \<Rightarrow> (data, Some err)
      | Inr (algs, key) \<Rightarrow>
     (let data = data\<lparr>Algorithms := Some algs, HostKey := Some key\<rparr>
      in case (if ClientConfig.CollectExtensions cfg
               then (case srv_extensions srv of
                       Inl err \<Rightarrow> (data, Some err)
                     | Inr exts \<Rightarrow> (data\<lparr>Extensions := Some exts\<rparr>, None))
               else (data, None)) of
        (data, Some err) \<Rightarrow> (data, Some err)
      | (data, None) \<Rightarrow>
     (if ClientConfig.CollectUserAuth cfg
      then (case srv_authMethods srv of
              Inl err \<Rightarrow> (data, Some err)
            | Inr methods \<Rightarrow> (data\<lparr>UserAuth := Some methods\<rparr>, None))
      else (data, None))))))"

text \<open>
  Modelled from the spec: what the driver transmits to authenticate. The spec: the
  user authentication probe "(only if collectUserAuth) sends a no-credential ("none"
  method) authentication request solely to elicit the server's advertised list of
  acceptable authentication methods from its rejection response, then stops"; the driver
  "never transmits any authentication credential under any configuration". A request
  carries its method name and, when it has one, a credential. \<open>NewClientConn_run\<close> is the
  run of \<open>NewClientConn\<close> together with the authentication requests it transmits.
\<close>

datatype auth_request = AuthRequest (auth_method: string) (auth_credential: "string option")

definition NewClientConn_run :: "Server \<Rightarrow> string \<Rightarrow> ClientConfig \<Rightarrow> HandshakeLog \<Rightarrow> (HandshakeLog \<times> error option) \<times> auth_request list" where
  "NewClientConn_run srv rhost cfg data =
     (case srv_banner srv of
        Inl err \<Rightarrow> ((data, Some err), [])
      | Inr banner \<Rightarrow>
     (case (case BannerCallback cfg of None \<Rightarrow> (data, None) | Some cb \<Rightarrow> cb banner data) of
        (data, Some err) \<Rightarrow> ((data, Some err), [])
      | (data, None) \<Rightarrow>
     (if ClientConfig.HelloOnly cfg then ((data, None), [])
      else case srv_keyExchange srv of
        Inl err \<Rightarrow> ((data, Some err), [])
      | Inr (algs, key) \<Rightarrow>
     (let data = data\<lparr>Algorithms := Some algs, HostKey := Some key\<rparr>
      in case (if ClientConfig.CollectExtensions cfg
               then (case srv_extensions srv of
                       Inl err \<Rightarrow> (data, Some err)
                     | Inr exts \<Rightarrow> (data\<lparr>Extensions := Some exts\<rparr>, None))
               else (data, None)) of
        (data, Some err) \<Rightarrow> ((data, Some err), [])
      | (data, None) \<Rightarrow>
     (if ClientConfig.CollectUserAuth cfg
      then (let request = AuthRequest ''none'' None
            in case srv_authMethods srv of
                 Inl err \<Rightarrow> ((data, Some err), [request])
               | Inr methods \<Rightarrow> ((data\<lparr>UserAuth := Some methods\<rparr>, None), [request]))
      else ((data, None), []))))))"

section \<open>Observations on a run, and concrete inputs\<close>

text \<open>\<open>strings.Join\<close> with a one-byte separator, the inverse of \<open>Split\<close>.\<close>

fun Join :: "string list \<Rightarrow> char \<Rightarrow> string" where
  "Join [] sep = []"
| "Join [t] sep = t"
| "Join (t # u # ts) sep = t @ sep # Join (u # ts) sep"

text \<open>The elements of a slice; the nil slice has none.\<close>

fun slice_list :: "slice \<Rightarrow> string list" where
  "slice_list None = []"
| "slice_list (Some xs) = xs"

text \<open>The log as the driver left it, for every call of the driver in a run.\<close>

fun driver_logs :: "event list \<Rightarrow> HandshakeLog list" where
  "driver_logs [] = []"
| "driver_logs (EvNewClientConn rhost cfg data # evs) = data # driver_logs evs"
| "driver_logs (ev # evs) = driver_logs evs"

text \<open>The messages written by \<open>log.Errorf\<close> in a run.\<close>

fun logged :: "event list \<Rightarrow> string list" where
  "logged [] = []"
| "logged (EvErrorf msg # evs) = msg # logged evs"
| "logged (ev # evs) = logged evs"

text \<open>
  A small catalog, flags that are valid for it (client identification, group exchange
  bounds as the defaults of lines 19 and 26 to 28, a connect timeout of ten seconds), the
  same flags with the cipher list of the spec's scenario \<open>--ciphers bogus-cipher\<close>, and a
  target.
\<close>

definition exampleCatalog :: Catalog where
  "exampleCatalog =
     \<lparr>supportedKexAlgos =
        [''curve25519-sha256'', ''ecdh-sha2-nistp256'', ''diffie-hellman-group14-sha256''],
      supportedHostKeyAlgos = [''ssh-ed25519'', ''rsa-sha2-512'', ''ssh-rsa''],
      supportedCiphers = [''aes128-ctr'', ''aes256-ctr'', ''aes128-gcm@openssh.com''],
      supportedMACs = [''hmac-sha2-256'', ''hmac-sha1'']\<rparr>"

definition exampleFlags :: SSHFlags where
  "exampleFlags =
     \<lparr>Name = ''ssh'', Trigger = [], ConnectTimeout = 10000000000, Verbose = False,
      ClientID = ''SSH-2.0-Go'',
      KexAlgorithms = ''curve25519-sha256,ecdh-sha2-nistp256'',
      HostKeyAlgorithms = ''ssh-ed25519,ssh-rsa'',
      Ciphers = ''aes128-ctr,aes256-ctr'',
      MACs = ''hmac-sha2-256,hmac-sha1'',
      CollectExtensions = False, CollectUserAuth = False,
      GexMinBits = 1024, GexMaxBits = 8192, GexPreferredBits = 2048,
      HelloOnly = False\<rparr>"

definition bogusFlags :: SSHFlags where
  "bogusFlags = exampleFlags\<lparr>SSHFlags.Ciphers := ''bogus-cipher''\<rparr>"

definition exampleTarget :: ScanTarget where
  "exampleTarget = \<lparr>Host = ''192.0.2.1'', Port = 22, TargetString = ''192.0.2.1:22''\<rparr>"

text \<open>The configuration that \<open>Scan\<close> assembles from \<open>exampleFlags\<close>.\<close>

definition exampleConfig :: ClientConfig where
  "exampleConfig =
     \<lparr>Timeout = 10000000000, ConnLog = Some DataPtr, ClientVersion = ''SSH-2.0-Go'',
      HelloOnly = False,
      KeyExchanges = Some [''curve25519-sha256'', ''ecdh-sha2-nistp256''],
      HostKeyAlgorithms = Some [''ssh-ed25519'', ''ssh-rsa''],
      Ciphers = Some [''aes128-ctr'', ''aes256-ctr''],
      MACs = Some [''hmac-sha2-256'', ''hmac-sha1''],
      Verbose = False, CollectExtensions = False, CollectUserAuth = False,
      DontAuthenticate = True, GexMinBits = 1024, GexMaxBits = 8192, GexPreferredBits = 2048,
      BannerCallback = Some bannerCallback, HostKeyCallback = Some InsecureIgnoreHostKey\<rparr>"

text \<open>
  A server that sends its identification line (ending in carriage return and line feed)
  and then behaves in the key exchange as given; an environment in which the dial and the
  deadline succeed and the driver talks to that server.
\<close>

definition exampleBanner :: string where
  "exampleBanner = ''SSH-2.0-OpenSSH_9.0'' @ [CHR 0x0D, CHR 0x0A]"

definition exampleAlgorithms :: Negotiated where
  "exampleAlgorithms =
     \<lparr>kexAlgorithm = ''curve25519-sha256'', hostKeyAlgorithm = ''ssh-ed25519'',
      cipher = ''aes128-ctr'', mac = ''hmac-sha2-256''\<rparr>"

definition exampleServer :: "error + Negotiated \<times> string \<Rightarrow> Server" where
  "exampleServer kex =
     \<lparr>srv_banner = Inr exampleBanner,
      srv_keyExchange = kex,
      srv_extensions = Inr [],
      srv_authMethods = Inr [''publickey'', ''password'']\<rparr>"

definition exampleEnv :: "Server \<Rightarrow> error option \<Rightarrow> Env" where
  "exampleEnv srv cerr =
     \<lparr>env_Dial = None, env_SetDeadline = None, env_NewClientConn = NewClientConn srv,
      env_Close = cerr\<rparr>"

text \<open>
  The example flags with the user authentication probe switched on, and a banner with
  white space at both ends (tab, space; no-break space, carriage return, line feed) and
  two spaces inside.
\<close>

definition userAuthFlags :: SSHFlags where
  "userAuthFlags = exampleFlags\<lparr>SSHFlags.CollectUserAuth := True\<rparr>"

definition paddedBanner :: string where
  "paddedBanner = [CHR 0x09, CHR 0x20] @ ''SSH-2.0-Go  probe'' @ [CHR 0xC2, CHR 0xA0, CHR 0x0D, CHR 0x0A]"

section \<open>The validator\<close>

lemma contains_iff: "contains list e \<longleftrightarrow> e \<in> set list"
  by (simp add: contains_def List.member_iff)

lemma Split_not_Nil: "Split s sep \<noteq> []"
  by (induction s) (auto split: list.splits)

lemma Split_no_sep: "sep \<notin> set s \<Longrightarrow> Split s sep = [s]"
  by (induction s) auto

text \<open>
  \<open>Split\<close> is the splitting at the separator: no token holds a separator, and joining the
  tokens with the separator gives the string back.
\<close>

lemma Split_tokens_no_sep: "t \<in> set (Split s sep) \<Longrightarrow> sep \<notin> set t"
proof (induction s arbitrary: t)
  case Nil
  then show ?case by simp
next
  case (Cons c cs)
  show ?case
  proof (cases "c = sep")
    case True
    with Cons show ?thesis by auto
  next
    case False
    obtain u us where us: "Split cs sep = u # us"
      using Split_not_Nil [of cs sep] by (cases "Split cs sep") auto
    with False Cons.prems have "t = c # u \<or> t \<in> set us" by simp
    then show ?thesis
    proof
      assume "t = c # u"
      moreover have "sep \<notin> set u" using Cons.IH [of u] us by simp
      ultimately show ?thesis using False by auto
    next
      assume "t \<in> set us"
      then show ?thesis using Cons.IH [of t] us by simp
    qed
  qed
qed

lemma Join_Split: "Join (Split s sep) sep = s"
proof (induction s)
  case Nil
  then show ?case by simp
next
  case (Cons c cs)
  obtain u us where us: "Split cs sep = u # us"
    using Split_not_Nil [of cs sep] by (cases "Split cs sep") auto
  with Cons show ?case by (cases us) auto
qed

text \<open>
  The loop, in one equation: it fails at the first token outside \<open>supported\<close>, and
  otherwise appends all the tokens to the slice it started with.
\<close>

lemma validateLoop_find:
  "validateLoop toks supported algs =
     (case List.find (\<lambda>t. t \<notin> set supported) toks of
        Some bad \<Rightarrow> (None, Some (not_supported bad))
      | None \<Rightarrow> (if toks = [] then algs else Some (slice_list algs @ toks), None))"
proof (induction toks arbitrary: algs)
  case Nil
  then show ?case by simp
next
  case (Cons t ts)
  show ?case
  proof (cases "t \<in> set supported")
    case True
    then show ?thesis
      using Cons.IH [of "append_slice algs t"]
      by (cases algs) (auto simp: contains_iff split: option.splits)
  next
    case False
    then show ?thesis by (simp add: contains_iff)
  qed
qed

text \<open>
  Claim C3. When every comma-separated token of the input is in the supported list,
  \<open>validateAlgorithms\<close> succeeds (the error is nil) and returns exactly the tokens of the
  input: the same tokens in the same order, duplicates kept.
\<close>

theorem validateAlgorithms_accepts:
  assumes "set (Split value CHR '','') \<subseteq> set supported"
  shows "validateAlgorithms value supported = (Some (Split value CHR '',''), None)"
proof -
  have "List.find (\<lambda>t. t \<notin> set supported) (Split value CHR '','') = None"
    using assms by (auto simp: find_None_iff)
  then show ?thesis
    by (simp add: validateAlgorithms_def validateLoop_find Split_not_Nil)
qed

theorem validateAlgorithms_accepts_witness:
  "set (Split ''aes256-ctr,aes128-ctr,aes256-ctr'' CHR '','') \<subseteq> set (supportedCiphers exampleCatalog)
   \<and> validateAlgorithms ''aes256-ctr,aes128-ctr,aes256-ctr'' (supportedCiphers exampleCatalog)
       = (Some [''aes256-ctr'', ''aes128-ctr'', ''aes256-ctr''], None)"
proof -
  have h: "set (Split ''aes256-ctr,aes128-ctr,aes256-ctr'' CHR '','')
             \<subseteq> set (supportedCiphers exampleCatalog)"
    by (simp add: exampleCatalog_def)
  show ?thesis
    using h validateAlgorithms_accepts [OF h] by simp
qed

text \<open>
  Claim C4. When some comma-separated token of the input is not in the supported list,
  \<open>validateAlgorithms\<close> returns the nil slice (no prefix of the valid tokens) and the error
  \<open>algorithm not supported: "bad"\<close>, where \<open>bad\<close> is the first such token.
\<close>

theorem validateAlgorithms_rejects:
  assumes "\<not> set (Split value CHR '','') \<subseteq> set supported"
  shows "\<exists>bad. List.find (\<lambda>t. t \<notin> set supported) (Split value CHR '','') = Some bad
           \<and> validateAlgorithms value supported
               = (None, Some (ErrorNew (''algorithm not supported: '' @ [CHR 0x22] @ bad @ [CHR 0x22])))"
proof -
  from assms obtain bad
    where "List.find (\<lambda>t. t \<notin> set supported) (Split value CHR '','') = Some bad"
    by (cases "List.find (\<lambda>t. t \<notin> set supported) (Split value CHR '','')")
       (auto simp: find_None_iff)
  then show ?thesis
    by (simp add: validateAlgorithms_def validateLoop_find not_supported_def)
qed

theorem validateAlgorithms_rejects_witness:
  "\<not> set (Split ''aes128-ctr,bogus-cipher,aes256-ctr,worse'' CHR '','')
       \<subseteq> set (supportedCiphers exampleCatalog)
   \<and> validateAlgorithms ''aes128-ctr,bogus-cipher,aes256-ctr,worse'' (supportedCiphers exampleCatalog)
       = (None, Some (ErrorNew (''algorithm not supported: '' @ [CHR 0x22] @ ''bogus-cipher'' @ [CHR 0x22])))"
proof -
  have h: "\<not> set (Split ''aes128-ctr,bogus-cipher,aes256-ctr,worse'' CHR '','')
               \<subseteq> set (supportedCiphers exampleCatalog)"
    by (simp add: exampleCatalog_def)
  show ?thesis
    using h validateAlgorithms_rejects [OF h] by (simp add: exampleCatalog_def)
qed

text \<open>
  Claim C5, as the code has it. The empty string splits into one empty token, so
  \<open>validateAlgorithms\<close> on the empty string fails with \<open>algorithm not supported: ""\<close>,
  unless the empty string is itself in the supported list, and then it returns the list
  of that one empty token; it returns an empty list for no input at all. A string without
  a comma is one token and is matched as it stands, nothing trimmed: it is accepted when
  it is in the supported list and rejected otherwise, so a supported identifier with
  spaces around it is rejected unless the padded string is in the list too.
\<close>

theorem validateAlgorithms_single_token:
  "validateAlgorithms [] supported
     = (if [] \<in> set supported then (Some [[]], None)
        else (None, Some (ErrorNew (''algorithm not supported: '' @ [CHR 0x22, CHR 0x22]))))
   \<and> fst (validateAlgorithms value supported) \<noteq> Some []
   \<and> (CHR '','' \<notin> set tok \<longrightarrow>
        validateAlgorithms tok supported
          = (if tok \<in> set supported then (Some [tok], None)
             else (None, Some (ErrorNew (''algorithm not supported: '' @ [CHR 0x22] @ tok @ [CHR 0x22])))))"
proof (intro conjI impI)
  show "validateAlgorithms [] supported
     = (if [] \<in> set supported then (Some [[]], None)
        else (None, Some (ErrorNew (''algorithm not supported: '' @ [CHR 0x22, CHR 0x22]))))"
    by (simp add: validateAlgorithms_def contains_iff not_supported_def)
next
  show "fst (validateAlgorithms value supported) \<noteq> Some []"
    by (simp add: validateAlgorithms_def validateLoop_find Split_not_Nil split: option.splits)
next
  assume "CHR '','' \<notin> set tok"
  then show "validateAlgorithms tok supported
          = (if tok \<in> set supported then (Some [tok], None)
             else (None, Some (ErrorNew (''algorithm not supported: '' @ [CHR 0x22] @ tok @ [CHR 0x22]))))"
    by (simp add: validateAlgorithms_def Split_no_sep contains_iff not_supported_def)
qed

theorem validateAlgorithms_single_token_witness:
  "CHR '','' \<notin> set '' aes128-ctr ''
   \<and> validateAlgorithms '' aes128-ctr '' [''aes128-ctr'', ''aes256-ctr'']
       = (None, Some (ErrorNew (''algorithm not supported: '' @ [CHR 0x22] @ '' aes128-ctr '' @ [CHR 0x22])))"
proof -
  have h: "CHR '','' \<notin> set '' aes128-ctr ''" by simp
  show ?thesis
    using h validateAlgorithms_single_token
              [of "[''aes128-ctr'', ''aes256-ctr'']" "[]" "'' aes128-ctr ''"]
    by simp
qed

text \<open>
  Claim C5 as stated fails on the empty string against a list of two ciphers: the call
  returns an error, it does not succeed with an empty list.
\<close>

theorem validateAlgorithms_empty_counterexample:
  "validateAlgorithms [] [''aes128-ctr'', ''aes256-ctr'']
     = (None, Some (ErrorNew (''algorithm not supported: '' @ [CHR 0x22, CHR 0x22])))"
  by (simp add: validateAlgorithms_def contains_def List.member_code not_supported_def)

section \<open>The setters\<close>

text \<open>
  Claim C10. Each of the four setters, on an input whose validation fails with \<open>err\<close>,
  returns \<open>err\<close> and leaves the whole configuration as it was.
\<close>

theorem setters_atomic:
  "(snd (validateAlgorithms value (supportedKexAlgos cat)) = Some err
      \<longrightarrow> SetKexAlgorithms cat value c = (c, Some err))
   \<and> (snd (validateAlgorithms value (supportedHostKeyAlgos cat)) = Some err
      \<longrightarrow> SetHostKeyAlgorithms cat value c = (c, Some err))
   \<and> (snd (validateAlgorithms value (supportedCiphers cat)) = Some err
      \<longrightarrow> SetCiphers cat value c = (c, Some err))
   \<and> (snd (validateAlgorithms value (supportedMACs cat)) = Some err
      \<longrightarrow> SetMACs cat value c = (c, Some err))"
  by (auto simp: SetKexAlgorithms_def SetHostKeyAlgorithms_def SetCiphers_def SetMACs_def
           split: prod.splits option.splits)

lemma bogus_rejected:
  "snd (validateAlgorithms ''bogus'' (supportedKexAlgos exampleCatalog)) = Some (not_supported ''bogus'')"
  "snd (validateAlgorithms ''bogus'' (supportedHostKeyAlgos exampleCatalog)) = Some (not_supported ''bogus'')"
  "snd (validateAlgorithms ''bogus'' (supportedCiphers exampleCatalog)) = Some (not_supported ''bogus'')"
  "snd (validateAlgorithms ''bogus'' (supportedMACs exampleCatalog)) = Some (not_supported ''bogus'')"
  by (simp_all add: validateAlgorithms_def exampleCatalog_def contains_def List.member_code)

theorem setters_atomic_witness:
  "snd (validateAlgorithms ''bogus'' (supportedKexAlgos exampleCatalog)) = Some (not_supported ''bogus'')
   \<and> SetKexAlgorithms exampleCatalog ''bogus'' (MakeSSHConfig exampleCatalog)
       = (MakeSSHConfig exampleCatalog, Some (not_supported ''bogus''))
   \<and> snd (validateAlgorithms ''bogus'' (supportedHostKeyAlgos exampleCatalog)) = Some (not_supported ''bogus'')
   \<and> SetHostKeyAlgorithms exampleCatalog ''bogus'' (MakeSSHConfig exampleCatalog)
       = (MakeSSHConfig exampleCatalog, Some (not_supported ''bogus''))
   \<and> snd (validateAlgorithms ''bogus'' (supportedCiphers exampleCatalog)) = Some (not_supported ''bogus'')
   \<and> SetCiphers exampleCatalog ''bogus'' (MakeSSHConfig exampleCatalog)
       = (MakeSSHConfig exampleCatalog, Some (not_supported ''bogus''))
   \<and> snd (validateAlgorithms ''bogus'' (supportedMACs exampleCatalog)) = Some (not_supported ''bogus'')
   \<and> SetMACs exampleCatalog ''bogus'' (MakeSSHConfig exampleCatalog)
       = (MakeSSHConfig exampleCatalog, Some (not_supported ''bogus''))"
  using bogus_rejected
    setters_atomic [of "''bogus''" exampleCatalog "not_supported ''bogus''" "MakeSSHConfig exampleCatalog"]
  by blast

section \<open>White space trimming\<close>

lemma spaceLen_0_iff: "spaceLen ws s = 0 \<longleftrightarrow> (\<forall>w\<in>set ws. w \<noteq> [] \<longrightarrow> \<not> prefix w s)"
  by (auto simp: spaceLen_def find_None_iff find_Some_iff split: option.splits)

lemma trimLeading_no_space: "spaceLen ws (trimLeading ws s) = 0"
proof (induction ws s rule: trimLeading.induct)
  case (1 ws s)
  show ?case
  proof (cases "spaceLen ws s = 0")
    case True
    then show ?thesis by (simp add: trimLeading.simps [of ws s])
  next
    case False
    with "1" show ?thesis by (simp add: trimLeading.simps [of ws s])
  qed
qed

lemma trimLeading_suffix: "suffix (trimLeading ws s) s"
proof (induction ws s rule: trimLeading.induct)
  case (1 ws s)
  show ?case
  proof (cases "spaceLen ws s = 0")
    case True
    then show ?thesis by (simp add: trimLeading.simps [of ws s])
  next
    case False
    with "1" have "suffix (trimLeading ws (drop (spaceLen ws s) s)) (drop (spaceLen ws s) s)"
      by simp
    then have "suffix (trimLeading ws (drop (spaceLen ws s) s)) s"
      using suffix_drop suffix_order.trans by blast
    with False show ?thesis by (simp add: trimLeading.simps [of ws s])
  qed
qed

lemma TrimSpace_prefix: "prefix (TrimSpace s) (trimLeading spaceEncodings s)"
  using trimLeading_suffix [of "map rev spaceEncodings" "rev (trimLeading spaceEncodings s)"]
  by (simp add: TrimSpace_def suffix_to_prefix)

text \<open>
  What \<open>TrimSpace\<close> returns is a contiguous part of its argument that neither starts nor
  ends with a white space rune.
\<close>

lemma TrimSpace_sublist: "sublist (TrimSpace s) s"
  using TrimSpace_prefix [of s] trimLeading_suffix [of spaceEncodings s]
  by (meson prefix_imp_sublist suffix_imp_sublist sublist_order.order_trans)

lemma TrimSpace_no_leading_space: "spaceLen spaceEncodings (TrimSpace s) = 0"
proof -
  have "spaceLen spaceEncodings (trimLeading spaceEncodings s) = 0"
    by (rule trimLeading_no_space)
  then show ?thesis
    using TrimSpace_prefix [of s] unfolding spaceLen_0_iff
    by (meson prefix_order.trans)
qed

lemma TrimSpace_no_trailing_space: "spaceLen (map rev spaceEncodings) (rev (TrimSpace s)) = 0"
  by (simp add: TrimSpace_def trimLeading_no_space)

lemma spaceLen_pos:
  assumes "spaceLen ws s \<noteq> 0"
  shows "\<exists>w\<in>set ws. prefix w s \<and> length w = spaceLen ws s"
proof -
  from assms obtain w
    where f: "List.find (\<lambda>w. w \<noteq> [] \<and> prefix w s) ws = Some w" and n: "spaceLen ws s = length w"
    by (cases "List.find (\<lambda>w. w \<noteq> [] \<and> prefix w s) ws") (auto simp: spaceLen_def)
  from f have "w \<in> set ws" and "prefix w s"
    by (auto simp: find_Some_iff)
  with n show ?thesis by auto
qed

lemma trimLeading_decomp: "\<exists>ls. set ls \<subseteq> set ws \<and> s = concat ls @ trimLeading ws s"
proof (induction ws s rule: trimLeading.induct)
  case (1 ws s)
  show ?case
  proof (cases "spaceLen ws s = 0")
    case True
    then have "trimLeading ws s = s" by (simp add: trimLeading.simps [of ws s])
    then have "set [] \<subseteq> set ws \<and> s = concat [] @ trimLeading ws s" by simp
    then show ?thesis by blast
  next
    case False
    then obtain w where w: "w \<in> set ws" "prefix w s" "length w = spaceLen ws s"
      using spaceLen_pos by blast
    from False "1" obtain ls where ls: "set ls \<subseteq> set ws"
      "drop (spaceLen ws s) s = concat ls @ trimLeading ws (drop (spaceLen ws s) s)"
      by auto
    from w have "s = w @ drop (spaceLen ws s) s"
      by (metis append_eq_conv_conj prefixE)
    moreover from False have "trimLeading ws s = trimLeading ws (drop (spaceLen ws s) s)"
      by (simp add: trimLeading.simps [of ws s])
    ultimately have "s = concat (w # ls) @ trimLeading ws s"
      using ls(2) by simp
    moreover have "set (w # ls) \<subseteq> set ws" using w(1) ls(1) by simp
    ultimately show ?thesis by blast
  qed
qed

lemma spaceEncodings_nonempty: "[] \<notin> set spaceEncodings"
  by (simp add: spaceEncodings_def)

lemma TrimSpace_decomp:
  "\<exists>ls rs. set ls \<subseteq> set spaceEncodings \<and> set rs \<subseteq> set spaceEncodings
           \<and> s = concat ls @ TrimSpace s @ concat rs"
proof -
  let ?t = "trimLeading spaceEncodings s"
  obtain ls where ls: "set ls \<subseteq> set spaceEncodings" "s = concat ls @ ?t"
    using trimLeading_decomp by blast
  obtain rs' where rs': "set rs' \<subseteq> set (map rev spaceEncodings)"
    "rev ?t = concat rs' @ trimLeading (map rev spaceEncodings) (rev ?t)"
    using trimLeading_decomp by blast
  have "?t = rev (rev ?t)" by simp
  also have "\<dots> = TrimSpace s @ rev (concat rs')"
    using rs'(2) by (metis TrimSpace_def rev_append)
  also have "rev (concat rs') = concat (map rev (rev rs'))"
    by (simp add: rev_concat)
  finally have t: "?t = TrimSpace s @ concat (map rev (rev rs'))" .
  have "set (map rev (rev rs')) \<subseteq> set spaceEncodings"
    using rs'(1) by auto
  with ls t show ?thesis by metis
qed

lemma TrimSpace_no_prefix:
  assumes "w \<in> set spaceEncodings"
  shows "\<not> prefix w (TrimSpace s)"
  using assms TrimSpace_no_leading_space [of s] spaceEncodings_nonempty
  by (auto simp: spaceLen_0_iff)

lemma TrimSpace_no_suffix:
  assumes "w \<in> set spaceEncodings"
  shows "\<not> suffix w (TrimSpace s)"
proof -
  from assms have "rev w \<in> set (map rev spaceEncodings)" and "rev w \<noteq> []"
    using spaceEncodings_nonempty by auto
  with TrimSpace_no_trailing_space [of s] have "\<not> prefix (rev w) (rev (TrimSpace s))"
    unfolding spaceLen_0_iff by blast
  then show ?thesis by (simp add: suffix_to_prefix)
qed

lemma spaceEncodings_prefix_free:
  "\<forall>w\<in>set spaceEncodings. \<forall>w'\<in>set spaceEncodings. prefix w w' \<longrightarrow> w = w'"
  by (simp add: spaceEncodings_def)

lemma spaceEncodings_suffix_free:
  "\<forall>w\<in>set (map rev spaceEncodings). \<forall>w'\<in>set (map rev spaceEncodings). prefix w w' \<longrightarrow> w = w'"
  by (simp add: spaceEncodings_def)

lemma spaceEncodings_lead_bytes:
  "\<forall>w\<in>set spaceEncodings. \<forall>w'\<in>set spaceEncodings. hd w' \<notin> set (tl w)"
  by (simp add: spaceEncodings_def)

lemma spaceLen_encoding:
  assumes pf: "\<forall>w\<in>set ws. \<forall>w'\<in>set ws. prefix w w' \<longrightarrow> w = w'"
      and ne: "[] \<notin> set ws" and w: "w \<in> set ws"
  shows "spaceLen ws (w @ y) = length w"
proof -
  from w ne have "w \<noteq> [] \<and> prefix w (w @ y)" by auto
  with w have "List.find (\<lambda>v. v \<noteq> [] \<and> prefix v (w @ y)) ws \<noteq> None"
    by (auto simp: find_None_iff)
  then obtain v where f: "List.find (\<lambda>v. v \<noteq> [] \<and> prefix v (w @ y)) ws = Some v"
    by auto
  then have v: "v \<in> set ws" "prefix v (w @ y)"
    by (auto simp: find_Some_iff)
  from v(2) have "prefix v w \<or> prefix w v"
    by (meson prefix_append prefix_same_cases prefixI)
  with pf v(1) w have "v = w" by blast
  with f show ?thesis by (simp add: spaceLen_def)
qed

lemma trimLeading_concat:
  assumes pf: "\<forall>w\<in>set ws. \<forall>w'\<in>set ws. prefix w w' \<longrightarrow> w = w'"
      and ne: "[] \<notin> set ws" and xs: "set xs \<subseteq> set ws"
  shows "trimLeading ws (concat xs @ u) = trimLeading ws u"
  using xs
proof (induction xs)
  case Nil
  then show ?case by simp
next
  case (Cons w xs)
  then have w: "w \<in> set ws" and "set xs \<subseteq> set ws" by auto
  from w ne have "w \<noteq> []" by auto
  have n: "spaceLen ws (w @ concat xs @ u) = length w"
    using spaceLen_encoding [OF pf ne w] .
  have "trimLeading ws (concat (w # xs) @ u) = trimLeading ws (w @ concat xs @ u)"
    by simp
  also have "\<dots> = trimLeading ws (concat xs @ u)"
    using n \<open>w \<noteq> []\<close> by (simp add: trimLeading.simps [of ws "w @ concat xs @ u"])
  also have "\<dots> = trimLeading ws u"
    using Cons.IH \<open>set xs \<subseteq> set ws\<close> by simp
  finally show ?case .
qed

lemma concat_hd:
  assumes "set rs \<subseteq> set ws" and "[] \<notin> set ws" and "concat rs \<noteq> []"
  shows "\<exists>w\<in>set ws. hd (concat rs) = hd w"
proof (cases rs)
  case Nil
  with assms(3) show ?thesis by simp
next
  case (Cons a list)
  with assms(1,2) have "a \<in> set ws" and "a \<noteq> []" by auto
  moreover from \<open>a \<noteq> []\<close> Cons have "hd (concat rs) = hd a" by simp
  ultimately show ?thesis by blast
qed

lemma trimLeading_Nil: "trimLeading ws [] = []"
proof -
  have "spaceLen ws [] = 0" unfolding spaceLen_0_iff by simp
  then show ?thesis by (simp add: trimLeading.simps [of ws "[]"])
qed

lemma spaceLen_core:
  assumes t: "t \<noteq> []" and np: "\<forall>w\<in>set spaceEncodings. \<not> prefix w t"
      and rs: "set rs \<subseteq> set spaceEncodings"
  shows "spaceLen spaceEncodings (t @ concat rs) = 0"
  unfolding spaceLen_0_iff
proof (intro ballI impI notI)
  fix w
  assume w: "w \<in> set spaceEncodings" and p: "prefix w (t @ concat rs)"
  from p np w obtain us where us: "w = t @ us" "prefix us (concat rs)"
    by (auto simp: prefix_append)
  from us(1) np w have "us \<noteq> []" by auto
  from us(2) obtain zs where z: "concat rs = us @ zs"
    by (auto simp: prefix_def)
  have r: "concat rs \<noteq> []" unfolding z using \<open>us \<noteq> []\<close> by simp
  have h: "hd us = hd (concat rs)" unfolding z using \<open>us \<noteq> []\<close> by simp
  from concat_hd [OF rs spaceEncodings_nonempty r]
  obtain w' where w': "w' \<in> set spaceEncodings" "hd (concat rs) = hd w'" by blast
  from us(1) t \<open>us \<noteq> []\<close> have "hd us \<in> set (tl w)" by (cases t) auto
  with h w' w spaceEncodings_lead_bytes show False by auto
qed

text \<open>
  The three properties determine the result: however a string is cut into white space
  runes, a middle part that neither starts nor ends with a white space rune, and white
  space runes, the middle part is what \<open>TrimSpace\<close> returns.
\<close>

lemma TrimSpace_unique:
  assumes ls: "set ls \<subseteq> set spaceEncodings" and rs: "set rs \<subseteq> set spaceEncodings"
      and s: "s = concat ls @ t @ concat rs"
      and np: "\<forall>w\<in>set spaceEncodings. \<not> prefix w t \<and> \<not> suffix w t"
  shows "TrimSpace s = t"
proof (cases "t = []")
  case True
  have "trimLeading spaceEncodings s = trimLeading spaceEncodings []"
    using trimLeading_concat [OF spaceEncodings_prefix_free spaceEncodings_nonempty, of "ls @ rs" "[]"]
      ls rs s True by simp
  also have "\<dots> = []" by (rule trimLeading_Nil)
  finally have "trimLeading spaceEncodings s = []" .
  then have "TrimSpace s = rev (trimLeading (map rev spaceEncodings) [])"
    by (simp add: TrimSpace_def)
  also have "\<dots> = []" by (simp add: trimLeading_Nil)
  finally show ?thesis using True by simp
next
  case False
  have "trimLeading spaceEncodings s = trimLeading spaceEncodings (t @ concat rs)"
    using trimLeading_concat [OF spaceEncodings_prefix_free spaceEncodings_nonempty ls] s by simp
  also have "\<dots> = t @ concat rs"
    using spaceLen_core [OF False _ rs] np
    by (simp add: trimLeading.simps [of spaceEncodings "t @ concat rs"])
  finally have l: "trimLeading spaceEncodings s = t @ concat rs" .
  have ne': "[] \<notin> set (map rev spaceEncodings)"
    using spaceEncodings_nonempty by auto
  have rs': "set (map rev (rev rs)) \<subseteq> set (map rev spaceEncodings)"
    using rs by auto
  have "rev (t @ concat rs) = concat (map rev (rev rs)) @ rev t"
    by (simp add: rev_concat)
  then have "trimLeading (map rev spaceEncodings) (rev (t @ concat rs))
               = trimLeading (map rev spaceEncodings) (rev t)"
    using trimLeading_concat [OF spaceEncodings_suffix_free ne' rs'] by simp
  also have "\<dots> = rev t"
  proof -
    have "spaceLen (map rev spaceEncodings) (rev t) = 0"
      unfolding spaceLen_0_iff using np by (auto simp: suffix_to_prefix)
    then show ?thesis
      by (simp add: trimLeading.simps [of "map rev spaceEncodings" "rev t"])
  qed
  finally show ?thesis using l by (simp add: TrimSpace_def)
qed

lemma TrimSpace_padded: "TrimSpace paddedBanner = ''SSH-2.0-Go  probe''"
  by code_simp

lemma TrimSpace_example: "TrimSpace exampleBanner = ''SSH-2.0-OpenSSH_9.0''"
  by code_simp

section \<open>The assembled configuration\<close>

lemma setter_None:
  "SetKexAlgorithms cat v c = (c', None) \<Longrightarrow> snd (validateAlgorithms v (supportedKexAlgos cat)) = None"
  "SetHostKeyAlgorithms cat v c = (c', None) \<Longrightarrow> snd (validateAlgorithms v (supportedHostKeyAlgos cat)) = None"
  "SetCiphers cat v c = (c', None) \<Longrightarrow> snd (validateAlgorithms v (supportedCiphers cat)) = None"
  "SetMACs cat v c = (c', None) \<Longrightarrow> snd (validateAlgorithms v (supportedMACs cat)) = None"
  by (auto simp: SetKexAlgorithms_def SetHostKeyAlgorithms_def SetCiphers_def SetMACs_def
           split: prod.splits option.splits)

lemma Scan_config_Inr_valid:
  assumes "Scan_config cat config = Inr cfg"
  shows "snd (validateAlgorithms (SSHFlags.HostKeyAlgorithms config) (supportedHostKeyAlgos cat)) = None
       \<and> snd (validateAlgorithms (KexAlgorithms config) (supportedKexAlgos cat)) = None
       \<and> snd (validateAlgorithms (SSHFlags.Ciphers config) (supportedCiphers cat)) = None
       \<and> snd (validateAlgorithms (SSHFlags.MACs config) (supportedMACs cat)) = None"
  using assms
  by (auto simp: Scan_config_def Let_def split: prod.splits option.splits dest: setter_None)

lemma Scan_config_Inr_fields:
  assumes "Scan_config cat config = Inr cfg"
  shows "DontAuthenticate cfg" and "BannerCallback cfg = Some bannerCallback"
  using assms
  by (auto simp: Scan_config_def Let_def split: prod.splits option.splits)

lemma exampleConfig_assembled: "Scan_config exampleCatalog exampleFlags = Inr exampleConfig"
  by (simp add: Scan_config_def SetHostKeyAlgorithms_def SetKexAlgorithms_def SetCiphers_def
        SetMACs_def validateAlgorithms_def contains_def List.member_code exampleCatalog_def
        exampleFlags_def exampleConfig_def new_ClientConfig_def)

lemma userAuthConfig_assembled:
  "Scan_config exampleCatalog userAuthFlags = Inr (exampleConfig\<lparr>ClientConfig.CollectUserAuth := True\<rparr>)"
  by (simp add: Scan_config_def SetHostKeyAlgorithms_def SetKexAlgorithms_def SetCiphers_def
        SetMACs_def validateAlgorithms_def contains_def List.member_code exampleCatalog_def
        userAuthFlags_def exampleFlags_def exampleConfig_def new_ClientConfig_def)

lemma bogusFlags_rejected:
  "snd (validateAlgorithms (SSHFlags.Ciphers bogusFlags) (supportedCiphers exampleCatalog))
     = Some (not_supported ''bogus-cipher'')"
  by (simp add: bogusFlags_def exampleFlags_def validateAlgorithms_def exampleCatalog_def
        contains_def List.member_code)

lemma bogusFlags_fatal: "Scan_config exampleCatalog bogusFlags = Inl (not_supported ''bogus-cipher'')"
  by (simp add: Scan_config_def SetHostKeyAlgorithms_def SetKexAlgorithms_def SetCiphers_def
        SetMACs_def validateAlgorithms_def contains_def List.member_code exampleCatalog_def
        bogusFlags_def exampleFlags_def new_ClientConfig_def)

lemma exampleFlags_timeout: "ConnectTimeout exampleFlags \<noteq> 0"
  by (simp add: exampleFlags_def)

section \<open>The driver against the example server\<close>

lemma NewClientConn_banner:
  assumes "BannerCallback cfg = Some bannerCallback" and "srv_banner srv = Inr banner"
  shows "Banner (fst (NewClientConn srv rhost cfg data)) = TrimSpace banner"
  using assms
  by (auto simp: NewClientConn_def bannerCallback_def Let_def
           split: sum.splits prod.splits option.splits)

lemma exampleServer_run:
  "NewClientConn (exampleServer (Inl err)) rhost exampleConfig new_HandshakeLog
     = (new_HandshakeLog\<lparr>Banner := ''SSH-2.0-OpenSSH_9.0''\<rparr>, Some err)"
  by (simp add: NewClientConn_def exampleServer_def exampleConfig_def bannerCallback_def
        TrimSpace_example)

lemma exampleServer_run_ok:
  "NewClientConn (exampleServer (Inr (algs, key))) rhost exampleConfig new_HandshakeLog
     = (new_HandshakeLog\<lparr>Banner := ''SSH-2.0-OpenSSH_9.0'', Algorithms := Some algs,
          HostKey := Some key\<rparr>, None)"
  by (simp add: NewClientConn_def exampleServer_def exampleConfig_def bannerCallback_def
        TrimSpace_example)

lemma NewClientConn_run_result:
  "fst (NewClientConn_run srv rhost cfg data) = NewClientConn srv rhost cfg data"
  by (auto simp: NewClientConn_run_def NewClientConn_def Let_def
           split: sum.splits prod.splits option.splits)

lemma NewClientConn_run_requests:
  "snd (NewClientConn_run srv rhost cfg data) = []
   \<or> snd (NewClientConn_run srv rhost cfg data) = [AuthRequest ''none'' None]"
  by (auto simp: NewClientConn_run_def Let_def split: sum.splits prod.splits option.splits)

lemma userAuth_run:
  "NewClientConn_run (exampleServer (Inr (algs, key))) rhost
      (exampleConfig\<lparr>ClientConfig.CollectUserAuth := True\<rparr>) new_HandshakeLog
     = ((new_HandshakeLog\<lparr>Banner := ''SSH-2.0-OpenSSH_9.0'', Algorithms := Some algs,
           HostKey := Some key, UserAuth := Some [''publickey'', ''password'']\<rparr>, None),
        [AuthRequest ''none'' None])"
  by (simp add: NewClientConn_run_def exampleServer_def exampleConfig_def bannerCallback_def
        TrimSpace_example)

section \<open>The scanner\<close>

text \<open>
  Claim C1, as the code has it. When the dial and the deadline succeed and the handshake
  driver returns an error (whatever it had written into the log before, the banner
  included), \<open>Scan\<close> returns the handshake-error status, \<open>nil\<close> in place of the log, and the
  error wrapped as \<open>failed to create SSH client connection: ...\<close>. The log that the driver
  filled is not returned to the caller.
\<close>

theorem Scan_handshake_failure_returns_nil_log:
  assumes "Scan_config cat config = Inr sshConfig"
      and "env_Dial env = None"
      and "ConnectTimeout config \<noteq> 0 \<longrightarrow> env_SetDeadline env = None"
      and "env_NewClientConn env (JoinHostPort (Host target) (Itoa (sint (Port target))))
             sshConfig new_HandshakeLog = (data, Some err)"
  shows "fst (Scan cat config env target)
           = Return SCAN_HANDSHAKE_ERROR None
               (Some (ErrorWrap ''failed to create SSH client connection: '' err))
         \<and> driver_logs (snd (Scan cat config env target)) = [data]"
  using assms by (auto simp: Scan_def Let_def)

theorem Scan_handshake_failure_witness:
  "Scan_config exampleCatalog exampleFlags = Inr exampleConfig
   \<and> env_Dial (exampleEnv (exampleServer (Inl (ErrorExt CauseHandshake ''EOF''))) None) = None
   \<and> ConnectTimeout exampleFlags \<noteq> 0
   \<and> env_SetDeadline (exampleEnv (exampleServer (Inl (ErrorExt CauseHandshake ''EOF''))) None) = None
   \<and> fst (Scan exampleCatalog exampleFlags
            (exampleEnv (exampleServer (Inl (ErrorExt CauseHandshake ''EOF''))) None) exampleTarget)
       = Return SCAN_HANDSHAKE_ERROR None
           (Some (ErrorWrap ''failed to create SSH client connection: ''
                    (ErrorExt CauseHandshake ''EOF'')))
   \<and> driver_logs (snd (Scan exampleCatalog exampleFlags
            (exampleEnv (exampleServer (Inl (ErrorExt CauseHandshake ''EOF''))) None) exampleTarget))
       = [new_HandshakeLog\<lparr>Banner := ''SSH-2.0-OpenSSH_9.0''\<rparr>]"
proof -
  let ?env = "exampleEnv (exampleServer (Inl (ErrorExt CauseHandshake ''EOF''))) None"
  have d: "env_Dial ?env = None" by (simp add: exampleEnv_def)
  have t: "ConnectTimeout exampleFlags \<noteq> 0 \<longrightarrow> env_SetDeadline ?env = None"
    by (simp add: exampleEnv_def)
  have h: "env_NewClientConn ?env
             (JoinHostPort (Host exampleTarget) (Itoa (sint (Port exampleTarget))))
             exampleConfig new_HandshakeLog
           = (new_HandshakeLog\<lparr>Banner := ''SSH-2.0-OpenSSH_9.0''\<rparr>,
              Some (ErrorExt CauseHandshake ''EOF''))"
    by (simp add: exampleEnv_def exampleServer_run)
  show ?thesis
    using Scan_handshake_failure_returns_nil_log [OF exampleConfig_assembled d t h]
      exampleConfig_assembled exampleFlags_timeout
    by (simp add: exampleEnv_def)
qed

text \<open>
  Claim C1 as stated fails when the server sends its banner and closes the connection at
  once: the driver has stored the banner, and \<open>Scan\<close> returns \<open>nil\<close> in place of the log.
\<close>

theorem Scan_handshake_failure_counterexample:
  "fst (Scan exampleCatalog exampleFlags
          (exampleEnv (exampleServer (Inl (ErrorExt CauseHandshake ''EOF''))) None) exampleTarget)
     = Return SCAN_HANDSHAKE_ERROR None
         (Some (ErrorWrap ''failed to create SSH client connection: ''
                  (ErrorExt CauseHandshake ''EOF'')))"
  by (simp add: Scan_def exampleConfig_assembled exampleEnv_def exampleServer_run
        exampleFlags_timeout)

text \<open>
  Claim C2. Whatever the flags, the catalog, the environment and the target: a
  configuration that \<open>Scan\<close> assembles has \<open>DontAuthenticate\<close> set, and every configuration
  that \<open>Scan\<close> hands to the handshake driver is the assembled one, so it has
  \<open>DontAuthenticate\<close> set. No flag is read for this field. And the driver, under every
  configuration and against every server, transmits at most one authentication request,
  of the method \<open>none\<close> and without a credential.
\<close>

theorem Scan_never_authenticates:
  "(\<forall>sshConfig. Scan_config cat config = Inr sshConfig \<longrightarrow> DontAuthenticate sshConfig)
   \<and> (\<forall>rhost sshConfig data.
         EvNewClientConn rhost sshConfig data \<in> set (snd (Scan cat config env target))
         \<longrightarrow> Scan_config cat config = Inr sshConfig \<and> DontAuthenticate sshConfig)
   \<and> (\<forall>srv rhost sshConfig data.
         \<forall>request \<in> set (snd (NewClientConn_run srv rhost sshConfig data)).
           auth_method request = ''none'' \<and> auth_credential request = None)
   \<and> (\<forall>srv rhost sshConfig data.
         length (snd (NewClientConn_run srv rhost sshConfig data)) \<le> 1)"
proof (intro conjI allI impI ballI)
  fix sshConfig
  assume "Scan_config cat config = Inr sshConfig"
  then show "DontAuthenticate sshConfig" by (rule Scan_config_Inr_fields)
next
  fix rhost sshConfig data
  assume ev: "EvNewClientConn rhost sshConfig data \<in> set (snd (Scan cat config env target))"
  then show "Scan_config cat config = Inr sshConfig"
    by (auto simp: Scan_def Scan_deferred_def Let_def
             split: sum.splits option.splits prod.splits if_splits)
  then show "DontAuthenticate sshConfig" by (rule Scan_config_Inr_fields)
next
  fix srv rhost sshConfig data request
  assume r: "request \<in> set (snd (NewClientConn_run srv rhost sshConfig data))"
  with NewClientConn_run_requests [of srv rhost sshConfig data]
  have "request = AuthRequest ''none'' None" by auto
  then show "auth_method request = ''none''" and "auth_credential request = None"
    by simp_all
next
  fix srv rhost sshConfig data
  show "length (snd (NewClientConn_run srv rhost sshConfig data)) \<le> 1"
    using NewClientConn_run_requests [of srv rhost sshConfig data] by auto
qed

theorem Scan_never_authenticates_witness:
  "Scan_config exampleCatalog userAuthFlags
     = Inr (exampleConfig\<lparr>ClientConfig.CollectUserAuth := True\<rparr>)
   \<and> EvNewClientConn (JoinHostPort (Host exampleTarget) (Itoa (sint (Port exampleTarget))))
        (exampleConfig\<lparr>ClientConfig.CollectUserAuth := True\<rparr>)
        (new_HandshakeLog\<lparr>Banner := ''SSH-2.0-OpenSSH_9.0'',
           Algorithms := Some exampleAlgorithms, HostKey := Some ''ssh-ed25519 AAAA'',
           UserAuth := Some [''publickey'', ''password'']\<rparr>)
       \<in> set (snd (Scan exampleCatalog userAuthFlags
                      (exampleEnv (exampleServer (Inr (exampleAlgorithms, ''ssh-ed25519 AAAA''))) None
                         \<lparr>env_NewClientConn := \<lambda>rhost cfg data.
                             fst (NewClientConn_run
                                    (exampleServer (Inr (exampleAlgorithms, ''ssh-ed25519 AAAA'')))
                                    rhost cfg data)\<rparr>)
                      exampleTarget))
   \<and> DontAuthenticate (exampleConfig\<lparr>ClientConfig.CollectUserAuth := True\<rparr>)
   \<and> AuthRequest ''none'' None
       \<in> set (snd (NewClientConn_run (exampleServer (Inr (exampleAlgorithms, ''ssh-ed25519 AAAA'')))
                      ''192.0.2.1:22'' (exampleConfig\<lparr>ClientConfig.CollectUserAuth := True\<rparr>)
                      new_HandshakeLog))
   \<and> auth_credential (AuthRequest ''none'' None) = None"
proof -
  let ?srv = "exampleServer (Inr (exampleAlgorithms, ''ssh-ed25519 AAAA''))"
  let ?cfg = "exampleConfig\<lparr>ClientConfig.CollectUserAuth := True\<rparr>"
  let ?env = "exampleEnv ?srv None
                \<lparr>env_NewClientConn := \<lambda>rhost cfg data. fst (NewClientConn_run ?srv rhost cfg data)\<rparr>"
  let ?ev = "EvNewClientConn (JoinHostPort (Host exampleTarget) (Itoa (sint (Port exampleTarget))))
        ?cfg
        (new_HandshakeLog\<lparr>Banner := ''SSH-2.0-OpenSSH_9.0'',
           Algorithms := Some exampleAlgorithms, HostKey := Some ''ssh-ed25519 AAAA'',
           UserAuth := Some [''publickey'', ''password'']\<rparr>)"
  have t: "ConnectTimeout userAuthFlags \<noteq> 0"
    by (simp add: userAuthFlags_def exampleFlags_def)
  have ev: "?ev \<in> set (snd (Scan exampleCatalog userAuthFlags ?env exampleTarget))"
    by (simp add: Scan_def Let_def userAuthConfig_assembled exampleEnv_def userAuth_run t)
  have rq: "AuthRequest ''none'' None
       \<in> set (snd (NewClientConn_run ?srv ''192.0.2.1:22'' ?cfg new_HandshakeLog))"
    by (simp add: userAuth_run)
  note inst = Scan_never_authenticates [of exampleCatalog userAuthFlags ?env exampleTarget]
  from inst userAuthConfig_assembled have d: "DontAuthenticate ?cfg"
    by blast
  from inst rq have c: "auth_credential (AuthRequest ''none'' None) = None"
    by blast
  from userAuthConfig_assembled ev d rq c show ?thesis
    by (intro conjI)
qed

text \<open>
  Claim C6, at a handshake that runs into the deadline. The driver returns an error whose
  cause is the expired deadline, during key exchange. \<open>Scan\<close> returns the handshake-error
  status, although the classifier gives the very error it returns the timeout status.
\<close>

theorem Scan_handshake_timeout_status:
  "fst (Scan exampleCatalog exampleFlags
          (exampleEnv (exampleServer (Inl (ErrorExt CauseTimeout ''i/o timeout''))) None)
          exampleTarget)
     = Return SCAN_HANDSHAKE_ERROR None
         (Some (ErrorWrap ''failed to create SSH client connection: ''
                  (ErrorExt CauseTimeout ''i/o timeout'')))
   \<and> TryGetScanStatus
        (Some (ErrorWrap ''failed to create SSH client connection: ''
                 (ErrorExt CauseTimeout ''i/o timeout''))) = SCAN_TIMEOUT"
  by (simp add: Scan_def exampleConfig_assembled exampleEnv_def exampleServer_run
        exampleFlags_timeout)

text \<open>
  The two paths before the handshake classify the error by its cause: a dial or a
  deadline error caused by a timeout gets the timeout status, and no log is returned.
\<close>

lemma Scan_dial_failure:
  assumes "Scan_config cat config = Inr sshConfig" and "env_Dial env = Some err"
  shows "Scan cat config env target
           = (Return (TryGetScanStatus (Some err)) None
                (Some (ErrorWrap (''failed to dial target '' @ TargetString target @ '': '') err)),
              [EvDial target])"
  using assms by (simp add: Scan_def)

lemma Scan_dial_timeout:
  assumes "Scan_config cat config = Inr sshConfig" and "env_Dial env = Some err"
      and "cause_of err = CauseTimeout"
  shows "\<exists>e. fst (Scan cat config env target) = Return SCAN_TIMEOUT None (Some e)"
  using assms by (simp add: Scan_def)

lemma Scan_deadline_failure:
  assumes "Scan_config cat config = Inr sshConfig" and "env_Dial env = None"
      and "ConnectTimeout config \<noteq> 0" and "env_SetDeadline env = Some err"
  shows "Scan cat config env target
           = (Return (TryGetScanStatus (Some err)) None
                (Some (ErrorWrap ''failed to set connection deadline: '' err)),
              [EvDial target, EvSetDeadline (ConnectTimeout config)])"
  using assms by (simp add: Scan_def)

text \<open>
  Claim C7. When the handshake succeeded, the three results of \<open>Scan\<close> are the success
  status, the log and no error, whatever \<open>sshClient.Close\<close> returns in the deferred
  closure. A close error whose message contains \<open>use of closed network connection\<close> is
  not logged at all; any other close error is logged once, and that is all it does.
\<close>

theorem close_error_never_alters_result:
  assumes "Scan_config cat config = Inr sshConfig"
      and "env_Dial env = None"
      and "ConnectTimeout config \<noteq> 0 \<longrightarrow> env_SetDeadline env = None"
      and "env_NewClientConn env (JoinHostPort (Host target) (Itoa (sint (Port target))))
             sshConfig new_HandshakeLog = (data, None)"
  shows "fst (Scan cat config (env\<lparr>env_Close := cerr\<rparr>) target)
           = Return SCAN_SUCCESS (Some data) None
         \<and> logged (snd (Scan cat config (env\<lparr>env_Close := cerr\<rparr>) target))
           = (case cerr of
                None \<Rightarrow> []
              | Some err \<Rightarrow>
                  if Contains (Error err) ''use of closed network connection'' then []
                  else [''error closing SSH client for target '' @ TargetString target
                        @ '': '' @ Error err])"
  using assms by (auto simp: Scan_def Scan_deferred_def Let_def split: option.splits)

lemma Contains_example:
  "Contains ''close tcp 192.0.2.1:22: use of closed network connection''
     ''use of closed network connection''"
  "\<not> Contains ''broken pipe'' ''use of closed network connection''"
  by simp_all

theorem close_error_never_alters_result_witness:
  "Scan_config exampleCatalog exampleFlags = Inr exampleConfig
   \<and> env_Dial (exampleEnv (exampleServer (Inr (exampleAlgorithms, ''ssh-ed25519 AAAA''))) None) = None
   \<and> ConnectTimeout exampleFlags \<noteq> 0
   \<and> env_SetDeadline (exampleEnv (exampleServer (Inr (exampleAlgorithms, ''ssh-ed25519 AAAA''))) None) = None
   \<and> fst (Scan exampleCatalog exampleFlags
        (exampleEnv (exampleServer (Inr (exampleAlgorithms, ''ssh-ed25519 AAAA'')))
           (Some (ErrorExt CauseOther ''close tcp 192.0.2.1:22: use of closed network connection'')))
        exampleTarget)
       = Return SCAN_SUCCESS
           (Some (new_HandshakeLog\<lparr>Banner := ''SSH-2.0-OpenSSH_9.0'',
              Algorithms := Some exampleAlgorithms, HostKey := Some ''ssh-ed25519 AAAA''\<rparr>)) None
   \<and> logged (snd (Scan exampleCatalog exampleFlags
        (exampleEnv (exampleServer (Inr (exampleAlgorithms, ''ssh-ed25519 AAAA'')))
           (Some (ErrorExt CauseOther ''close tcp 192.0.2.1:22: use of closed network connection'')))
        exampleTarget)) = []
   \<and> fst (Scan exampleCatalog exampleFlags
        (exampleEnv (exampleServer (Inr (exampleAlgorithms, ''ssh-ed25519 AAAA'')))
           (Some (ErrorExt CauseOther ''broken pipe'')))
        exampleTarget)
       = Return SCAN_SUCCESS
           (Some (new_HandshakeLog\<lparr>Banner := ''SSH-2.0-OpenSSH_9.0'',
              Algorithms := Some exampleAlgorithms, HostKey := Some ''ssh-ed25519 AAAA''\<rparr>)) None
   \<and> logged (snd (Scan exampleCatalog exampleFlags
        (exampleEnv (exampleServer (Inr (exampleAlgorithms, ''ssh-ed25519 AAAA'')))
           (Some (ErrorExt CauseOther ''broken pipe'')))
        exampleTarget))
       = [''error closing SSH client for target 192.0.2.1:22: broken pipe'']"
proof -
  let ?srv = "exampleServer (Inr (exampleAlgorithms, ''ssh-ed25519 AAAA''))"
  let ?env = "exampleEnv ?srv None"
  have d: "env_Dial ?env = None" by (simp add: exampleEnv_def)
  have t: "ConnectTimeout exampleFlags \<noteq> 0 \<longrightarrow> env_SetDeadline ?env = None"
    by (simp add: exampleEnv_def)
  have h: "env_NewClientConn ?env
             (JoinHostPort (Host exampleTarget) (Itoa (sint (Port exampleTarget))))
             exampleConfig new_HandshakeLog
           = (new_HandshakeLog\<lparr>Banner := ''SSH-2.0-OpenSSH_9.0'',
                Algorithms := Some exampleAlgorithms, HostKey := Some ''ssh-ed25519 AAAA''\<rparr>, None)"
    by (simp add: exampleEnv_def exampleServer_run_ok)
  have e: "?env\<lparr>env_Close := cerr\<rparr> = exampleEnv ?srv cerr" for cerr
    by (simp add: exampleEnv_def)
  have s: "TargetString exampleTarget = ''192.0.2.1:22''"
    by (simp add: exampleTarget_def)
  show ?thesis
    using close_error_never_alters_result [OF exampleConfig_assembled d t h,
            of "Some (ErrorExt CauseOther ''close tcp 192.0.2.1:22: use of closed network connection'')"]
      close_error_never_alters_result [OF exampleConfig_assembled d t h,
            of "Some (ErrorExt CauseOther ''broken pipe'')"]
      exampleConfig_assembled exampleFlags_timeout d t
    by (simp add: e s Contains_example)
qed

text \<open>
  Claim C8. The banner callback that \<open>Scan\<close> installs in the configuration returns no
  error and stores in the field \<open>Banner\<close> of the log (no other field changes) the banner
  without its surrounding white space: the banner is white space runes, then the stored
  string, then white space runes, and the stored string neither starts nor ends with a
  white space rune; it is the only string with these properties. So once the driver has
  received the banner, the log holds the trimmed banner whatever happens in a later phase.
\<close>

theorem banner_callback_stores_trimmed_banner:
  assumes "Scan_config cat config = Inr sshConfig"
  shows "BannerCallback sshConfig = Some bannerCallback
         \<and> (\<forall>banner data. bannerCallback banner data = (data\<lparr>Banner := TrimSpace banner\<rparr>, None))
         \<and> (\<forall>banner data.
               snd (bannerCallback banner data) = None
               \<and> (\<exists>ls rs. set ls \<subseteq> set spaceEncodings \<and> set rs \<subseteq> set spaceEncodings
                     \<and> banner = concat ls @ Banner (fst (bannerCallback banner data)) @ concat rs)
               \<and> (\<forall>w \<in> set spaceEncodings.
                     \<not> prefix w (Banner (fst (bannerCallback banner data)))
                     \<and> \<not> suffix w (Banner (fst (bannerCallback banner data))))
               \<and> (\<forall>t ls rs.
                     set ls \<subseteq> set spaceEncodings \<and> set rs \<subseteq> set spaceEncodings
                     \<and> banner = concat ls @ t @ concat rs
                     \<and> (\<forall>w \<in> set spaceEncodings. \<not> prefix w t \<and> \<not> suffix w t)
                     \<longrightarrow> t = Banner (fst (bannerCallback banner data))))
         \<and> (\<forall>srv rhost banner data. srv_banner srv = Inr banner
               \<longrightarrow> Banner (fst (NewClientConn srv rhost sshConfig data)) = TrimSpace banner)"
proof (intro conjI)
  show cb: "BannerCallback sshConfig = Some bannerCallback"
    using assms by (rule Scan_config_Inr_fields)
  show "\<forall>banner data. bannerCallback banner data = (data\<lparr>Banner := TrimSpace banner\<rparr>, None)"
    by (simp add: bannerCallback_def)
  show "\<forall>banner data.
               snd (bannerCallback banner data) = None
               \<and> (\<exists>ls rs. set ls \<subseteq> set spaceEncodings \<and> set rs \<subseteq> set spaceEncodings
                     \<and> banner = concat ls @ Banner (fst (bannerCallback banner data)) @ concat rs)
               \<and> (\<forall>w \<in> set spaceEncodings.
                     \<not> prefix w (Banner (fst (bannerCallback banner data)))
                     \<and> \<not> suffix w (Banner (fst (bannerCallback banner data))))
               \<and> (\<forall>t ls rs.
                     set ls \<subseteq> set spaceEncodings \<and> set rs \<subseteq> set spaceEncodings
                     \<and> banner = concat ls @ t @ concat rs
                     \<and> (\<forall>w \<in> set spaceEncodings. \<not> prefix w t \<and> \<not> suffix w t)
                     \<longrightarrow> t = Banner (fst (bannerCallback banner data)))"
  proof (intro allI)
    fix banner data
    have stored: "Banner (fst (bannerCallback banner data)) = TrimSpace banner"
      by (simp add: bannerCallback_def)
    have no_error: "snd (bannerCallback banner data) = None"
      by (simp add: bannerCallback_def)
    have cut: "\<exists>ls rs. set ls \<subseteq> set spaceEncodings \<and> set rs \<subseteq> set spaceEncodings
            \<and> banner = concat ls @ Banner (fst (bannerCallback banner data)) @ concat rs"
      unfolding stored by (rule TrimSpace_decomp)
    have ends: "\<forall>w \<in> set spaceEncodings.
            \<not> prefix w (Banner (fst (bannerCallback banner data)))
            \<and> \<not> suffix w (Banner (fst (bannerCallback banner data)))"
      unfolding stored
    proof
      fix w
      assume w: "w \<in> set spaceEncodings"
      show "\<not> prefix w (TrimSpace banner) \<and> \<not> suffix w (TrimSpace banner)"
        using TrimSpace_no_prefix [OF w, of banner] TrimSpace_no_suffix [OF w, of banner]
        by (rule conjI)
    qed
    have only: "\<forall>t ls rs.
            set ls \<subseteq> set spaceEncodings \<and> set rs \<subseteq> set spaceEncodings
            \<and> banner = concat ls @ t @ concat rs
            \<and> (\<forall>w \<in> set spaceEncodings. \<not> prefix w t \<and> \<not> suffix w t)
            \<longrightarrow> t = Banner (fst (bannerCallback banner data))"
      unfolding stored
    proof (intro allI impI)
      fix t ls rs
      assume a: "set ls \<subseteq> set spaceEncodings \<and> set rs \<subseteq> set spaceEncodings
            \<and> banner = concat ls @ t @ concat rs
            \<and> (\<forall>w \<in> set spaceEncodings. \<not> prefix w t \<and> \<not> suffix w t)"
      have "TrimSpace banner = t"
        by (rule TrimSpace_unique [of ls rs banner t])
           (rule a [THEN conjunct1], rule a [THEN conjunct2, THEN conjunct1],
            rule a [THEN conjunct2, THEN conjunct2, THEN conjunct1],
            rule a [THEN conjunct2, THEN conjunct2, THEN conjunct2])
      then show "t = TrimSpace banner" by (rule sym)
    qed
    from no_error cut ends only
    show "snd (bannerCallback banner data) = None
          \<and> (\<exists>ls rs. set ls \<subseteq> set spaceEncodings \<and> set rs \<subseteq> set spaceEncodings
                \<and> banner = concat ls @ Banner (fst (bannerCallback banner data)) @ concat rs)
          \<and> (\<forall>w \<in> set spaceEncodings.
                \<not> prefix w (Banner (fst (bannerCallback banner data)))
                \<and> \<not> suffix w (Banner (fst (bannerCallback banner data))))
          \<and> (\<forall>t ls rs.
                set ls \<subseteq> set spaceEncodings \<and> set rs \<subseteq> set spaceEncodings
                \<and> banner = concat ls @ t @ concat rs
                \<and> (\<forall>w \<in> set spaceEncodings. \<not> prefix w t \<and> \<not> suffix w t)
                \<longrightarrow> t = Banner (fst (bannerCallback banner data)))"
      by (intro conjI)
  qed
  show "\<forall>srv rhost banner data. srv_banner srv = Inr banner
               \<longrightarrow> Banner (fst (NewClientConn srv rhost sshConfig data)) = TrimSpace banner"
    using NewClientConn_banner [OF cb] by (intro allI impI)
qed

theorem banner_callback_witness:
  "Scan_config exampleCatalog exampleFlags = Inr exampleConfig
   \<and> srv_banner (exampleServer (Inl (ErrorExt CauseHandshake ''EOF''))) = Inr exampleBanner
   \<and> BannerCallback exampleConfig = Some bannerCallback
   \<and> bannerCallback exampleBanner new_HandshakeLog
       = (new_HandshakeLog\<lparr>Banner := ''SSH-2.0-OpenSSH_9.0''\<rparr>, None)
   \<and> bannerCallback paddedBanner new_HandshakeLog
       = (new_HandshakeLog\<lparr>Banner := ''SSH-2.0-Go  probe''\<rparr>, None)
   \<and> paddedBanner = concat [[CHR 0x09], [CHR 0x20]] @ ''SSH-2.0-Go  probe''
                       @ concat [[CHR 0xC2, CHR 0xA0], [CHR 0x0D], [CHR 0x0A]]
   \<and> [CHR 0x20] \<in> set spaceEncodings
   \<and> \<not> prefix [CHR 0x20] (Banner (fst (bannerCallback paddedBanner new_HandshakeLog)))
   \<and> \<not> suffix [CHR 0x20] (Banner (fst (bannerCallback paddedBanner new_HandshakeLog)))
   \<and> Banner (fst (NewClientConn (exampleServer (Inl (ErrorExt CauseHandshake ''EOF'')))
                    ''192.0.2.1:22'' exampleConfig new_HandshakeLog))
       = ''SSH-2.0-OpenSSH_9.0''"
proof -
  note inst = banner_callback_stores_trimmed_banner [OF exampleConfig_assembled]
  note c = inst [THEN conjunct1]
  note store = inst [THEN conjunct2, THEN conjunct1, rule_format]
  note trimmed = inst [THEN conjunct2, THEN conjunct2, THEN conjunct1, rule_format]
  note run = inst [THEN conjunct2, THEN conjunct2, THEN conjunct2, rule_format]
  have b: "srv_banner (exampleServer (Inl (ErrorExt CauseHandshake ''EOF''))) = Inr exampleBanner"
    by (simp add: exampleServer_def)
  have sp: "[CHR 0x20] \<in> set spaceEncodings"
    by (simp add: spaceEncodings_def)
  have p: "paddedBanner = concat [[CHR 0x09], [CHR 0x20]] @ ''SSH-2.0-Go  probe''
                       @ concat [[CHR 0xC2, CHR 0xA0], [CHR 0x0D], [CHR 0x0A]]"
    by (simp add: paddedBanner_def)
  have s1: "bannerCallback exampleBanner new_HandshakeLog
       = (new_HandshakeLog\<lparr>Banner := ''SSH-2.0-OpenSSH_9.0''\<rparr>, None)"
    unfolding store [of exampleBanner new_HandshakeLog] TrimSpace_example by (rule refl)
  have s2: "bannerCallback paddedBanner new_HandshakeLog
       = (new_HandshakeLog\<lparr>Banner := ''SSH-2.0-Go  probe''\<rparr>, None)"
    unfolding store [of paddedBanner new_HandshakeLog] TrimSpace_padded by (rule refl)
  note ends = trimmed [of paddedBanner new_HandshakeLog, THEN conjunct2, THEN conjunct2,
                       THEN conjunct1, THEN bspec, OF sp]
  have t1: "\<not> prefix [CHR 0x20] (Banner (fst (bannerCallback paddedBanner new_HandshakeLog)))"
    by (rule ends [THEN conjunct1])
  have t2: "\<not> suffix [CHR 0x20] (Banner (fst (bannerCallback paddedBanner new_HandshakeLog)))"
    by (rule ends [THEN conjunct2])
  have r: "Banner (fst (NewClientConn (exampleServer (Inl (ErrorExt CauseHandshake ''EOF'')))
                    ''192.0.2.1:22'' exampleConfig new_HandshakeLog))
       = ''SSH-2.0-OpenSSH_9.0''"
    unfolding run [OF b] TrimSpace_example by (rule refl)
  from exampleConfig_assembled b c s1 s2 p sp t1 t2 r show ?thesis
    by (intro conjI)
qed

text \<open>
  Claim C9. When one of the four validations (host key, key exchange, cipher, MAC) of the
  flags fails, the invocation ends in \<open>log.Fatal\<close>: the process exits with that error, and
  the only thing the invocation did is that log line. The dialer is not called, no
  deadline is set, the driver is not started, whatever the environment and the target.
\<close>

theorem invalid_algorithms_abort_before_dial:
  assumes "snd (validateAlgorithms (SSHFlags.HostKeyAlgorithms config) (supportedHostKeyAlgos cat)) \<noteq> None
         \<or> snd (validateAlgorithms (KexAlgorithms config) (supportedKexAlgos cat)) \<noteq> None
         \<or> snd (validateAlgorithms (SSHFlags.Ciphers config) (supportedCiphers cat)) \<noteq> None
         \<or> snd (validateAlgorithms (SSHFlags.MACs config) (supportedMACs cat)) \<noteq> None"
  shows "\<exists>err. Scan cat config env target = (Exit err, [EvFatal err])"
proof (cases "Scan_config cat config")
  case (Inl err)
  then show ?thesis by (simp add: Scan_def)
next
  case (Inr cfg)
  from Scan_config_Inr_valid [OF Inr] assms show ?thesis by blast
qed

theorem invalid_algorithms_abort_witness:
  "snd (validateAlgorithms (SSHFlags.Ciphers bogusFlags) (supportedCiphers exampleCatalog))
     = Some (not_supported ''bogus-cipher'')
   \<and> Scan exampleCatalog bogusFlags
        (exampleEnv (exampleServer (Inr (exampleAlgorithms, ''ssh-ed25519 AAAA''))) None)
        exampleTarget
       = (Exit (not_supported ''bogus-cipher''), [EvFatal (not_supported ''bogus-cipher'')])"
proof -
  let ?env = "exampleEnv (exampleServer (Inr (exampleAlgorithms, ''ssh-ed25519 AAAA''))) None"
  have h: "snd (validateAlgorithms (SSHFlags.HostKeyAlgorithms bogusFlags) (supportedHostKeyAlgos exampleCatalog)) \<noteq> None
         \<or> snd (validateAlgorithms (KexAlgorithms bogusFlags) (supportedKexAlgos exampleCatalog)) \<noteq> None
         \<or> snd (validateAlgorithms (SSHFlags.Ciphers bogusFlags) (supportedCiphers exampleCatalog)) \<noteq> None
         \<or> snd (validateAlgorithms (SSHFlags.MACs bogusFlags) (supportedMACs exampleCatalog)) \<noteq> None"
    using bogusFlags_rejected by simp
  from invalid_algorithms_abort_before_dial [OF h, of ?env exampleTarget]
  obtain err where run: "Scan exampleCatalog bogusFlags ?env exampleTarget = (Exit err, [EvFatal err])"
    by blast
  have "fst (Scan exampleCatalog bogusFlags ?env exampleTarget) = Exit (not_supported ''bogus-cipher'')"
    by (simp add: Scan_def bogusFlags_fatal)
  with run have "err = not_supported ''bogus-cipher''" by simp
  with run bogusFlags_rejected show ?thesis by simp
qed

end
